theory Spec2Isabelle
  imports Complex_Main
begin

section \<open>The relational schema of models.py\<close>

text \<open>
  Every mapped class of \<^verbatim>\<open>models.py\<close> is a record of its columns, and a table is the
  list of its rows in insertion order. A column declared \<^verbatim>\<open>nullable=False\<close> or
  \<^verbatim>\<open>primary_key=True\<close> holds a value in every stored row; a nullable column is an
  option. \<^verbatim>\<open>DateTime\<close> values are points in time counted as natural numbers,
  \<^verbatim>\<open>Float\<close> columns hold reals (the handlers only store and test them, no
  arithmetic is done on them). Relationships are not columns: they are recovered
  from the foreign keys. Of the constraints the schema declares, the model enforces
  NOT NULL, uniqueness and primary keys on every INSERT; it does not enforce foreign
  keys, which no result below depends on.
\<close>

type_synonym datetime = nat

record user =
  u_id :: int
  u_name :: string
  u_email :: string
  u_password_hash :: string
  u_is_admin :: bool

record category =
  cat_id :: int
  cat_name :: string

record book =
  b_id :: int
  b_title :: string
  b_author :: string
  b_price :: real
  b_description :: "string option"
  b_stock :: "int option"
  b_category_id :: "int option"
  b_is_available_for_borrowing :: bool

record order_row =
  o_id :: int
  o_order_date :: datetime
  o_status :: string
  o_user_id :: "int option"

text \<open>The association table \<^verbatim>\<open>order_books\<close>: composite primary key
  \<^verbatim>\<open>(order_id, book_id)\<close> and a quantity that is \<^verbatim>\<open>nullable=False, default=1\<close>.\<close>

record order_book =
  ob_order_id :: int
  ob_book_id :: int
  ob_quantity :: int

record borrowing =
  br_id :: int
  br_borrow_date :: datetime
  br_due_date :: datetime
  br_return_date :: "datetime option"
  br_user_id :: int
  br_book_id :: int

record cart =
  c_id :: int
  c_user_id :: int

record cart_item =
  ci_id :: int
  ci_cart_id :: int
  ci_book_id :: int
  ci_quantity :: int

record mpesa_transaction =
  t_id :: int
  t_user_id :: int
  t_amount :: real
  t_transaction_date :: datetime
  t_mpesa_receipt :: string
  t_status :: string

record database =
  users :: "user list"
  categories :: "category list"
  books :: "book list"
  orders :: "order_row list"
  order_books :: "order_book list"
  borrowings :: "borrowing list"
  carts :: "cart list"
  cart_items :: "cart_item list"
  mpesa_transactions :: "mpesa_transaction list"

section \<open>Instances before they are flushed\<close>

text \<open>
  An object built by a handler (\<^verbatim>\<open>User(name=..., email=...)\<close>) is not a row yet: its
  primary key and every column the constructor was not given are \<^verbatim>\<open>None\<close> until the
  session flushes it, which happens inside \<^verbatim>\<open>db.session.commit()\<close>. The flush fills
  in the column defaults, lets the database assign the key and enforce its
  constraints. The four classes that the handlers of \<^verbatim>\<open>app.py\<close> construct get an
  instance record each.
\<close>

record user_inst =
  ui_name :: "string option"
  ui_email :: "string option"
  ui_password_hash :: "string option"
  ui_is_admin :: "bool option"

record cart_inst =
  cn_user_id :: "int option"

record order_inst =
  oi_id :: "int option"
  oi_order_date :: "datetime option"
  oi_status :: "string option"
  oi_user_id :: "int option"
  oi_books :: "book list"

record mpesa_transaction_inst =
  ti_user_id :: "int option"
  ti_amount :: "real option"
  ti_transaction_date :: "datetime option"
  ti_mpesa_receipt :: "string option"
  ti_status :: "string option"

section \<open>Exceptions, responses and the environment\<close>

text \<open>
  A handler either returns a pair of a body and a status code, or an exception
  leaves it (the framework then answers 500 and the session is discarded without a
  commit, so the database is as it was before the request).
\<close>

datatype exn = IntegrityError | ValueError string | TypeError | RecursionError

text \<open>
  The mapped classes, and what \<^verbatim>\<open>to_dict()\<close> of \<^verbatim>\<open>SerializerMixin\<close> makes of an
  instance: a dictionary of its columns, given here by the class and the primary key
  of the row, and, under the name of each relationship that is not excluded, the
  serialised related instances (none or one for a scalar relationship).
\<close>

datatype model_class =
  User | Book | Order | Borrowing | Cart | CartItem | MpesaTransaction | Category

datatype serialized = Model model_class int "(string \<times> serialized list) list"

datatype body =
    ErrorBody string
  | MessageBody string
  | UserBody user
  | UserList "user list"
  | LoginBody int user
  | CartBody cart "cart_item list"
  | OrderBody order_row "book list"
  | ModelList "serialized list"
  | BorrowingList "borrowing list"
  | TransactionBody mpesa_transaction
  | TransactionList "mpesa_transaction list"
  | GatewayBody
  | JwtErrorBody

text \<open>\<open>ModelList\<close> holds what \<^verbatim>\<open>to_dict()\<close> returns for each row of a user-scoped
  listing; the other bodies name the rows the handler serialises.\<close>

datatype outcome = Response body nat | Raised exn

text \<open>
  What a request takes from outside the repository: the two bcrypt functions of
  Flask-Bcrypt (the salt is drawn inside \<^verbatim>\<open>generate_password_hash\<close>), the clock, and
  how many instances deep a serialisation can nest before the interpreter's
  recursion limit is reached.
\<close>

record env =
  generate_password_hash :: "string \<Rightarrow> string"
  check_password_hash :: "string \<Rightarrow> string \<Rightarrow> bool"
  utcnow :: datetime
  recursion_depth :: nat

text \<open>Python's \<^verbatim>\<open>not x\<close> for the JSON fields the handlers test: \<^verbatim>\<open>None\<close>
  (a missing key, since \<^verbatim>\<open>data.get\<close> is used), the empty string and zero are
  falsy.\<close>

fun not_str :: "string option \<Rightarrow> bool" where
  "not_str None = True"
| "not_str (Some s) = (s = [])"

fun not_int :: "int option \<Rightarrow> bool" where
  "not_int None = True"
| "not_int (Some n) = (n = 0)"

fun not_num :: "real option \<Rightarrow> bool" where
  "not_num None = True"
| "not_num (Some x) = (x = 0)"

section \<open>Queries\<close>

definition User_query_get :: "database \<Rightarrow> int \<Rightarrow> user option" where
  "User_query_get d i = find (\<lambda>u. u_id u = i) (users d)"

definition User_filter_by_email_first :: "database \<Rightarrow> string \<Rightarrow> user option" where
  "User_filter_by_email_first d email = find (\<lambda>u. u_email u = email) (users d)"

definition Book_query_get :: "database \<Rightarrow> int \<Rightarrow> book option" where
  "Book_query_get d i = find (\<lambda>b. b_id b = i) (books d)"

definition Cart_filter_by_user_first :: "database \<Rightarrow> int \<Rightarrow> cart option" where
  "Cart_filter_by_user_first d uid = find (\<lambda>c. c_user_id c = uid) (carts d)"

text \<open>The key an autoincrementing integer primary key gets: one more than the
  largest key of the table, 1 in an empty table.\<close>

definition next_id :: "int list \<Rightarrow> int" where
  "next_id ids = fold max ids 0 + 1"

section \<open>Serialisation: to_dict and the serialize_rules\<close>

text \<open>
  \<^verbatim>\<open>to_dict()\<close> walks every column and every relationship of the mapped class. The
  relationships of each class, as \<^verbatim>\<open>models.py\<close> declares them:
\<close>

fun relationships :: "model_class \<Rightarrow> string list" where
  "relationships User = [''orders'', ''borrowings'', ''cart'', ''transactions'']"
| "relationships Book = [''category'', ''orders'', ''borrowings'', ''cart_items'']"
| "relationships Order = [''user'', ''books'']"
| "relationships Borrowing = [''user'', ''book'']"
| "relationships Cart = [''user'', ''items'']"
| "relationships CartItem = [''cart'', ''book'']"
| "relationships MpesaTransaction = [''user'']"
| "relationships Category = [''books'']"

text \<open>The \<^verbatim>\<open>serialize_rules\<close> of each class. Every rule of the repository has the
  form \<^verbatim>\<open>'-a.b'\<close>: leave out \<^verbatim>\<open>b\<close> in what is nested under \<^verbatim>\<open>a\<close>.\<close>

fun serialize_rules :: "model_class \<Rightarrow> (string \<times> string) list" where
  "serialize_rules User =
     [(''orders'', ''user''), (''orders'', ''books''), (''borrowings'', ''user''),
      (''cart'', ''user''), (''transactions'', ''user'')]"
| "serialize_rules Book =
     [(''orders'', ''books''), (''category'', ''books''), (''borrowings'', ''book''),
      (''cart_items'', ''book'')]"
| "serialize_rules Order = [(''user'', ''orders''), (''books'', ''orders'')]"
| "serialize_rules Borrowing = [(''user'', ''borrowings''), (''book'', ''borrowings'')]"
| "serialize_rules Cart = [(''user'', ''cart''), (''items'', ''cart'')]"
| "serialize_rules CartItem = [(''cart'', ''items''), (''book'', ''cart_items'')]"
| "serialize_rules MpesaTransaction = [(''user'', ''transactions'')]"
| "serialize_rules Category = [(''books'', ''category'')]"

text \<open>
  The serialiser adds the rules of a class when it reaches an instance of it, and
  passes to what is nested under a key the rest of the rules that start with that
  key. Since every rule has two parts, the keys left out of an instance are those
  that the class it was reached from names after the key it was reached by; nothing
  is left out of the instance \<^verbatim>\<open>to_dict()\<close> is called on.
\<close>

definition excluded_under :: "model_class \<Rightarrow> string \<Rightarrow> string list" where
  "excluded_under c k = map snd (filter (\<lambda>r. fst r = k) (serialize_rules c))"

text \<open>The instances a relationship of the row with key \<open>i\<close> loads, by their class
  and key, from the foreign keys and the association table.\<close>

fun related :: "database \<Rightarrow> model_class \<Rightarrow> int \<Rightarrow> string \<Rightarrow> (model_class \<times> int) list" where
  "related d User i k =
     (if k = ''orders''
      then map (\<lambda>r. (Order, o_id r)) (filter (\<lambda>r. o_user_id r = Some i) (orders d))
      else if k = ''borrowings''
      then map (\<lambda>r. (Borrowing, br_id r)) (filter (\<lambda>r. br_user_id r = i) (borrowings d))
      else if k = ''cart''
      then map (\<lambda>r. (Cart, c_id r)) (take 1 (filter (\<lambda>r. c_user_id r = i) (carts d)))
      else if k = ''transactions''
      then map (\<lambda>r. (MpesaTransaction, t_id r))
             (filter (\<lambda>r. t_user_id r = i) (mpesa_transactions d))
      else [])"
| "related d Book i k =
     (if k = ''category''
      then concat (map (\<lambda>b. map (\<lambda>r. (Category, cat_id r))
                              (filter (\<lambda>r. Some (cat_id r) = b_category_id b) (categories d)))
                     (filter (\<lambda>b. b_id b = i) (books d)))
      else if k = ''orders''
      then concat (map (\<lambda>l. map (\<lambda>r. (Order, o_id r))
                              (filter (\<lambda>r. o_id r = ob_order_id l) (orders d)))
                     (filter (\<lambda>l. ob_book_id l = i) (order_books d)))
      else if k = ''borrowings''
      then map (\<lambda>r. (Borrowing, br_id r)) (filter (\<lambda>r. br_book_id r = i) (borrowings d))
      else if k = ''cart_items''
      then map (\<lambda>r. (CartItem, ci_id r)) (filter (\<lambda>r. ci_book_id r = i) (cart_items d))
      else [])"
| "related d Order i k =
     (if k = ''user''
      then concat (map (\<lambda>ord. map (\<lambda>r. (User, u_id r))
                                (filter (\<lambda>r. Some (u_id r) = o_user_id ord) (users d)))
                     (filter (\<lambda>ord. o_id ord = i) (orders d)))
      else if k = ''books''
      then concat (map (\<lambda>l. map (\<lambda>r. (Book, b_id r))
                              (filter (\<lambda>r. b_id r = ob_book_id l) (books d)))
                     (filter (\<lambda>l. ob_order_id l = i) (order_books d)))
      else [])"
| "related d Borrowing i k =
     (if k = ''user''
      then concat (map (\<lambda>b. map (\<lambda>r. (User, u_id r))
                              (filter (\<lambda>r. u_id r = br_user_id b) (users d)))
                     (filter (\<lambda>b. br_id b = i) (borrowings d)))
      else if k = ''book''
      then concat (map (\<lambda>b. map (\<lambda>r. (Book, b_id r))
                              (filter (\<lambda>r. b_id r = br_book_id b) (books d)))
                     (filter (\<lambda>b. br_id b = i) (borrowings d)))
      else [])"
| "related d Cart i k =
     (if k = ''user''
      then concat (map (\<lambda>c. map (\<lambda>r. (User, u_id r))
                              (filter (\<lambda>r. u_id r = c_user_id c) (users d)))
                     (filter (\<lambda>c. c_id c = i) (carts d)))
      else if k = ''items''
      then map (\<lambda>r. (CartItem, ci_id r)) (filter (\<lambda>r. ci_cart_id r = i) (cart_items d))
      else [])"
| "related d CartItem i k =
     (if k = ''cart''
      then concat (map (\<lambda>it. map (\<lambda>r. (Cart, c_id r))
                               (filter (\<lambda>r. c_id r = ci_cart_id it) (carts d)))
                     (filter (\<lambda>it. ci_id it = i) (cart_items d)))
      else if k = ''book''
      then concat (map (\<lambda>it. map (\<lambda>r. (Book, b_id r))
                               (filter (\<lambda>r. b_id r = ci_book_id it) (books d)))
                     (filter (\<lambda>it. ci_id it = i) (cart_items d)))
      else [])"
| "related d MpesaTransaction i k =
     (if k = ''user''
      then concat (map (\<lambda>t. map (\<lambda>r. (User, u_id r))
                              (filter (\<lambda>r. u_id r = t_user_id t) (users d)))
                     (filter (\<lambda>t. t_id t = i) (mpesa_transactions d)))
      else [])"
| "related d Category i k =
     (if k = ''books''
      then map (\<lambda>r. (Book, b_id r)) (filter (\<lambda>r. b_category_id r = Some i) (books d))
      else [])"

text \<open>
  The serialisation of an instance, with the keys left out of it and the number of
  levels it may still nest. It has a value when every nested serialisation has
  one; it has none when the nesting goes deeper than allowed, which is where
  Python raises \<^verbatim>\<open>RecursionError\<close>. The serialiser sets no bound of its own.
\<close>

primrec to_dict_depth ::
  "nat \<Rightarrow> database \<Rightarrow> string list \<Rightarrow> model_class \<times> int \<Rightarrow> serialized option"
where
  "to_dict_depth 0 d excl x = None"
| "to_dict_depth (Suc n) d excl x =
     map_option (Model (fst x) (snd x))
       (those (map (\<lambda>k. map_option (Pair k)
                          (those (map (to_dict_depth n d (excluded_under (fst x) k))
                                   (related d (fst x) (snd x) k))))
                 (filter (\<lambda>k. k \<notin> set excl) (relationships (fst x)))))"

definition to_dict :: "env \<Rightarrow> database \<Rightarrow> model_class \<times> int \<Rightarrow> serialized option" where
  "to_dict e d x = to_dict_depth (recursion_depth e) d [] x"

text \<open>The instance a serialisation is of.\<close>

fun model_of :: "serialized \<Rightarrow> model_class \<times> int" where
  "model_of (Model c i rels) = (c, i)"

section \<open>User: the email validator and the password credential\<close>

text \<open>
  \<^verbatim>\<open>validate_email\<close> tests \<^verbatim>\<open>re.match(r'^[a-zA-Z0-9_.+-]+@[a-zA-Z0-9-]+\.[a-zA-Z0-9-.]+$', email)\<close>.
  The three character classes are pairwise separated by a character none of them
  on the left contains (\<^verbatim>\<open>@\<close>, then \<^verbatim>\<open>.\<close>, then the end), so the greedy runs are the
  only way to match and the expression is decided by three \<open>takeWhile\<close>s. Python's
  \<^verbatim>\<open>$\<close> also matches just before a final newline.
\<close>

definition is_alnum :: "char \<Rightarrow> bool" where
  "is_alnum c = (let n = (of_char c :: nat) in
     (97 \<le> n \<and> n \<le> 122) \<or> (65 \<le> n \<and> n \<le> 90) \<or> (48 \<le> n \<and> n \<le> 57))"

definition local_char :: "char \<Rightarrow> bool" where
  "local_char c = (is_alnum c \<or> c = CHR ''_'' \<or> c = CHR ''.'' \<or> c = CHR ''+'' \<or> c = CHR ''-'')"

definition domain_char :: "char \<Rightarrow> bool" where
  "domain_char c = (is_alnum c \<or> c = CHR ''-'')"

definition suffix_char :: "char \<Rightarrow> bool" where
  "suffix_char c = (is_alnum c \<or> c = CHR ''-'' \<or> c = CHR ''.'')"

definition re_match_valid_email :: "string \<Rightarrow> bool" where
  "re_match_valid_email email =
     (let lp = takeWhile local_char email; rest = dropWhile local_char email in
      case rest of
        [] \<Rightarrow> False
      | c1 # rest1 \<Rightarrow>
          (let dom = takeWhile domain_char rest1; rest2 = dropWhile domain_char rest1 in
           case rest2 of
             [] \<Rightarrow> False
           | c2 # rest3 \<Rightarrow>
               (let suf = takeWhile suffix_char rest3; rest4 = dropWhile suffix_char rest3 in
                lp \<noteq> [] \<and> c1 = CHR ''@'' \<and> dom \<noteq> [] \<and> c2 = CHR ''.'' \<and> suf \<noteq> [] \<and>
                (rest4 = [] \<or> rest4 = [CHR 0x0A]))))"

definition validate_email :: "string \<Rightarrow> exn + string" where
  "validate_email email =
     (if re_match_valid_email email then Inr email else Inl (ValueError ''Invalid email''))"

text \<open>\<^verbatim>\<open>User(name=name, email=email)\<close>: the \<^verbatim>\<open>@validates('email')\<close> hook runs when the
  constructor assigns the attribute.\<close>

definition User_new :: "string \<Rightarrow> string \<Rightarrow> exn + user_inst" where
  "User_new name email =
     (case validate_email email of
        Inl x \<Rightarrow> Inl x
      | Inr em \<Rightarrow> Inr \<lparr>ui_name = Some name, ui_email = Some em,
                       ui_password_hash = None, ui_is_admin = None\<rparr>)"

definition set_password :: "env \<Rightarrow> user_inst \<Rightarrow> string \<Rightarrow> user_inst" where
  "set_password e u password = u\<lparr>ui_password_hash := Some (generate_password_hash e password)\<rparr>"

text \<open>The INSERT of a flushed \<^verbatim>\<open>User\<close>: \<^verbatim>\<open>name\<close>, \<^verbatim>\<open>email\<close> and \<^verbatim>\<open>password_hash\<close> are
  \<^verbatim>\<open>nullable=False\<close>, \<^verbatim>\<open>email\<close> is \<^verbatim>\<open>unique=True\<close>, \<^verbatim>\<open>is_admin\<close> has \<^verbatim>\<open>default=False\<close>.\<close>

definition insert_user :: "database \<Rightarrow> user_inst \<Rightarrow> exn + (user \<times> database)" where
  "insert_user d u =
     (case (ui_name u, ui_email u, ui_password_hash u) of
        (Some n, Some em, Some h) \<Rightarrow>
          if find (\<lambda>r. u_email r = em) (users d) \<noteq> None then Inl IntegrityError
          else
            (let row = \<lparr>u_id = next_id (map u_id (users d)), u_name = n, u_email = em,
                        u_password_hash = h,
                        u_is_admin = (case ui_is_admin u of None \<Rightarrow> False | Some a \<Rightarrow> a)\<rparr>
             in Inr (row, d\<lparr>users := users d @ [row]\<rparr>))
      | _ \<Rightarrow> Inl IntegrityError)"

section \<open>Register.post\<close>

fun Register_post ::
  "env \<Rightarrow> database \<Rightarrow> string option \<Rightarrow> string option \<Rightarrow> string option \<Rightarrow> outcome \<times> database"
where
  "Register_post e d name email password =
     (if not_str name \<or> not_str email \<or> not_str password
      then (Response (ErrorBody ''Missing required fields'') 400, d)
      else
        (case (name, email, password) of
           (Some n, Some em, Some p) \<Rightarrow>
             if User_filter_by_email_first d em \<noteq> None
             then (Response (ErrorBody ''Email already exists'') 400, d)
             else
               (case User_new n em of
                  Inl x \<Rightarrow> (Raised x, d)
                | Inr u \<Rightarrow>
                    (case insert_user d (set_password e u p) of
                       Inl x \<Rightarrow> (Raised x, d)
                     | Inr (row, d') \<Rightarrow> (Response (UserBody row) 201, d')))
         | _ \<Rightarrow> (Response (ErrorBody ''Missing required fields'') 400, d)))"

section \<open>MpesaTransactionResource.post\<close>

text \<open>\<^verbatim>\<open>MpesaTransaction(amount=amount, user_id=user_id)\<close>: the constructor is given two
  columns; \<^verbatim>\<open>mpesa_receipt\<close> is not among them.\<close>

definition MpesaTransaction_new :: "real \<Rightarrow> int \<Rightarrow> mpesa_transaction_inst" where
  "MpesaTransaction_new amount user_id =
     \<lparr>ti_user_id = Some user_id, ti_amount = Some amount, ti_transaction_date = None,
      ti_mpesa_receipt = None, ti_status = None\<rparr>"

text \<open>The INSERT of a flushed \<^verbatim>\<open>MpesaTransaction\<close>: \<^verbatim>\<open>user_id\<close>, \<^verbatim>\<open>amount\<close> and
  \<^verbatim>\<open>mpesa_receipt\<close> are \<^verbatim>\<open>nullable=False\<close> and have no default, \<^verbatim>\<open>mpesa_receipt\<close> is
  \<^verbatim>\<open>unique=True\<close>, \<^verbatim>\<open>transaction_date\<close> defaults to \<^verbatim>\<open>datetime.utcnow\<close> and
  \<^verbatim>\<open>status\<close> to \<^verbatim>\<open>'Pending'\<close>.\<close>

definition insert_mpesa_transaction ::
  "env \<Rightarrow> database \<Rightarrow> mpesa_transaction_inst \<Rightarrow> exn + (mpesa_transaction \<times> database)"
where
  "insert_mpesa_transaction e d t =
     (case (ti_user_id t, ti_amount t, ti_mpesa_receipt t) of
        (Some uid, Some a, Some r) \<Rightarrow>
          if find (\<lambda>x. t_mpesa_receipt x = r) (mpesa_transactions d) \<noteq> None
          then Inl IntegrityError
          else
            (let row = \<lparr>t_id = next_id (map t_id (mpesa_transactions d)), t_user_id = uid,
                        t_amount = a,
                        t_transaction_date =
                          (case ti_transaction_date t of None \<Rightarrow> utcnow e | Some x \<Rightarrow> x),
                        t_mpesa_receipt = r,
                        t_status = (case ti_status t of None \<Rightarrow> ''Pending'' | Some st \<Rightarrow> st)\<rparr>
             in Inr (row, d\<lparr>mpesa_transactions := mpesa_transactions d @ [row]\<rparr>))
      | _ \<Rightarrow> Inl IntegrityError)"

fun MpesaTransactionResource_post ::
  "env \<Rightarrow> database \<Rightarrow> int \<Rightarrow> real option \<Rightarrow> outcome \<times> database"
where
  "MpesaTransactionResource_post e d user_id amount =
     (if not_num amount then (Response (ErrorBody ''Amount is required'') 400, d)
      else
        (case amount of
           Some a \<Rightarrow>
             (case insert_mpesa_transaction e d (MpesaTransaction_new a user_id) of
                Inl x \<Rightarrow> (Raised x, d)
              | Inr (row, d') \<Rightarrow> (Response (TransactionBody row) 201, d'))
         | None \<Rightarrow> (Response (ErrorBody ''Amount is required'') 400, d)))"

section \<open>CartResource\<close>

definition Cart_new :: "int \<Rightarrow> cart_inst" where
  "Cart_new user_id = \<lparr>cn_user_id = Some user_id\<rparr>"

text \<open>\<^verbatim>\<open>Order(user_id=user_id)\<close>: the key, the date and the status are unset until the
  flush.\<close>

definition Order_new :: "int \<Rightarrow> order_inst" where
  "Order_new user_id =
     \<lparr>oi_id = None, oi_order_date = None, oi_status = None, oi_user_id = Some user_id,
      oi_books = []\<rparr>"

text \<open>\<^verbatim>\<open>order.books.append(book)\<close>\<close>

definition books_append :: "order_inst \<Rightarrow> book \<Rightarrow> order_inst" where
  "books_append ord b = ord\<lparr>oi_books := oi_books ord @ [b]\<rparr>"

definition insert_cart :: "database \<Rightarrow> cart_inst \<Rightarrow> exn + (cart \<times> database)" where
  "insert_cart d c =
     (case cn_user_id c of
        None \<Rightarrow> Inl IntegrityError
      | Some uid \<Rightarrow>
          (let row = \<lparr>c_id = next_id (map c_id (carts d)), c_user_id = uid\<rparr>
           in Inr (row, d\<lparr>carts := carts d @ [row]\<rparr>)))"

text \<open>The INSERT of a flushed \<^verbatim>\<open>Order\<close>: \<^verbatim>\<open>order_date\<close> defaults to
  \<^verbatim>\<open>datetime.utcnow\<close>, \<^verbatim>\<open>status\<close> to \<^verbatim>\<open>'Pending'\<close>; \<^verbatim>\<open>user_id\<close> is nullable.\<close>

definition insert_order :: "env \<Rightarrow> database \<Rightarrow> order_inst \<Rightarrow> order_row \<times> database" where
  "insert_order e d ord =
     (let row = \<lparr>o_id = next_id (map o_id (orders d)),
                 o_order_date = (case oi_order_date ord of None \<Rightarrow> utcnow e | Some x \<Rightarrow> x),
                 o_status = (case oi_status ord of None \<Rightarrow> ''Pending'' | Some st \<Rightarrow> st),
                 o_user_id = oi_user_id ord\<rparr>
      in (row, d\<lparr>orders := orders d @ [row]\<rparr>))"

text \<open>
  An INSERT into \<^verbatim>\<open>order_books\<close>. The two key columns are given as the statement has
  them, \<^verbatim>\<open>None\<close> being SQL NULL; the third argument is \<^verbatim>\<open>None\<close> when the statement
  leaves the quantity out, and the column default 1 is stored then. Both key
  columns are NOT NULL (they form the primary key) and the pair is unique.
\<close>

definition insert_order_books ::
  "database \<Rightarrow> int option \<Rightarrow> int option \<Rightarrow> int option \<Rightarrow> exn + database"
where
  "insert_order_books d order_id book_id quantity =
     (case (order_id, book_id) of
        (Some oid, Some bid) \<Rightarrow>
          if find (\<lambda>r. ob_order_id r = oid \<and> ob_book_id r = bid) (order_books d) \<noteq> None
          then Inl IntegrityError
          else Inr (d\<lparr>order_books := order_books d @
                 [\<lparr>ob_order_id = oid, ob_book_id = bid,
                   ob_quantity = (case quantity of None \<Rightarrow> 1 | Some q \<Rightarrow> q)\<rparr>]\<rparr>)
      | _ \<Rightarrow> Inl IntegrityError)"

text \<open>The rows the flush writes for the \<^verbatim>\<open>books\<close> relationship of an order
  (\<^verbatim>\<open>secondary=order_books\<close>): one per appended book, the quantity left out.\<close>

fun insert_links :: "database \<Rightarrow> int \<Rightarrow> book list \<Rightarrow> exn + database" where
  "insert_links d oid [] = Inr d"
| "insert_links d oid (b # bs) =
     (case insert_order_books d (Some oid) (Some (b_id b)) None of
        Inl x \<Rightarrow> Inl x
      | Inr d' \<Rightarrow> insert_links d' oid bs)"

text \<open>\<^verbatim>\<open>db.session.commit()\<close> of \<^verbatim>\<open>CartResource.post\<close>: the pending cart (if one was
  added), the pending order, then the rows of the order's relationship.\<close>

definition commit_cart_order ::
  "env \<Rightarrow> database \<Rightarrow> cart_inst option \<Rightarrow> order_inst \<Rightarrow> exn + (order_row \<times> database)"
where
  "commit_cart_order e d new_cart ord =
     (case (case new_cart of
              None \<Rightarrow> Inr d
            | Some c \<Rightarrow> (case insert_cart d c of Inl x \<Rightarrow> Inl x | Inr (row, d1) \<Rightarrow> Inr d1)) of
        Inl x \<Rightarrow> Inl x
      | Inr d1 \<Rightarrow>
          (case insert_order e d1 ord of
             (row, d2) \<Rightarrow>
               (case insert_links d2 (o_id row) (oi_books ord) of
                  Inl x \<Rightarrow> Inl x
                | Inr d3 \<Rightarrow> Inr (row, d3))))"

definition CartResource_get :: "database \<Rightarrow> int \<Rightarrow> outcome" where
  "CartResource_get d user_id =
     (case Cart_filter_by_user_first d user_id of
        None \<Rightarrow> Response (ErrorBody ''No cart found for user'') 404
      | Some c \<Rightarrow> Response (CartBody c (filter (\<lambda>i. ci_cart_id i = c_id c) (cart_items d))) 200)"

text \<open>
  \<^verbatim>\<open>CartResource.post\<close>, statement by statement. The cart and the order are added
  to the session but nothing is flushed before \<^verbatim>\<open>db.session.commit()\<close>; the
  statement \<^verbatim>\<open>order_books.insert().values(order_id=order.id, ...)\<close> is built from
  \<^verbatim>\<open>order.id\<close> as it is at that moment and executed before the commit.
\<close>

fun CartResource_post ::
  "env \<Rightarrow> database \<Rightarrow> int \<Rightarrow> int option \<Rightarrow> int option \<Rightarrow> outcome \<times> database"
where
  "CartResource_post e d user_id book_id quantity =
     (if not_int book_id \<or> not_int quantity
      then (Response (ErrorBody ''Missing required fields'') 400, d)
      else
        (case (book_id, quantity) of
           (Some bid, Some q) \<Rightarrow>
             (case Book_query_get d bid of
                None \<Rightarrow> (Response (ErrorBody ''Book not found'') 404, d)
              | Some book \<Rightarrow>
                  (let new_cart = (case Cart_filter_by_user_first d user_id of
                                     None \<Rightarrow> Some (Cart_new user_id)
                                   | Some c \<Rightarrow> None);
                       ord = books_append (Order_new user_id) book
                   in case insert_order_books d (oi_id ord) (Some (b_id book)) (Some q) of
                        Inl x \<Rightarrow> (Raised x, d)
                      | Inr d1 \<Rightarrow>
                          (case commit_cart_order e d1 new_cart ord of
                             Inl x \<Rightarrow> (Raised x, d)
                           | Inr (row, d2) \<Rightarrow>
                               (Response (OrderBody row (oi_books ord)) 201, d2))))
         | _ \<Rightarrow> (Response (ErrorBody ''Missing required fields'') 400, d)))"

section \<open>Listings\<close>

text \<open>\<^verbatim>\<open>[order.to_dict() for order in orders]\<close> over the rows the query returns; the
  comprehension raises as soon as one serialisation does.\<close>

definition UserOrders_get :: "env \<Rightarrow> database \<Rightarrow> int \<Rightarrow> outcome" where
  "UserOrders_get e d user_id =
     (case those (map (\<lambda>ord. to_dict e d (Order, o_id ord))
                   (filter (\<lambda>ord. o_user_id ord = Some user_id) (orders d))) of
        None \<Rightarrow> Raised RecursionError
      | Some items \<Rightarrow> Response (ModelList items) 200)"

definition UserBorrowings_get :: "env \<Rightarrow> database \<Rightarrow> int \<Rightarrow> outcome" where
  "UserBorrowings_get e d user_id =
     (case those (map (\<lambda>b. to_dict e d (Borrowing, br_id b))
                   (filter (\<lambda>b. br_user_id b = user_id) (borrowings d))) of
        None \<Rightarrow> Raised RecursionError
      | Some items \<Rightarrow> Response (ModelList items) 200)"

section \<open>The session and the admin check\<close>

text \<open>The state a request sees: the database, and \<^verbatim>\<open>session['user_id']\<close> of the
  caller's Flask session (\<^verbatim>\<open>None\<close> when the key is absent).\<close>

record state =
  db :: database
  session_user_id :: "int option"

definition is_admin :: "state \<Rightarrow> bool" where
  "is_admin s =
     (if not_int (session_user_id s) then False
      else
        (case session_user_id s of
           None \<Rightarrow> False
         | Some uid \<Rightarrow>
             (case User_query_get (db s) uid of None \<Rightarrow> False | Some u \<Rightarrow> u_is_admin u)))"

definition admin_check :: "database \<Rightarrow> int \<Rightarrow> outcome" where
  "admin_check d current_user_id =
     (case User_query_get d current_user_id of
        None \<Rightarrow> Response (MessageBody ''User is not an admin'') 403
      | Some u \<Rightarrow>
          if u_is_admin u then Response (MessageBody ''User is an admin'') 200
          else Response (MessageBody ''User is not an admin'') 403)"

definition AdminUserList_get :: "state \<Rightarrow> outcome" where
  "AdminUserList_get s =
     (if is_admin s then Response (UserList (users (db s))) 200
      else Response (ErrorBody ''Admin privileges required'') 403)"

definition AdminTransactionList_get :: "state \<Rightarrow> outcome" where
  "AdminTransactionList_get s =
     (if is_admin s then Response (TransactionList (mpesa_transactions (db s))) 200
      else Response (ErrorBody ''Admin privileges required'') 403)"

definition AdminBorrowingList_get :: "state \<Rightarrow> outcome" where
  "AdminBorrowingList_get s =
     (if is_admin s then Response (BorrowingList (borrowings (db s))) 200
      else Response (ErrorBody ''Admin privileges required'') 403)"

definition AdminLogout_post :: "state \<Rightarrow> outcome \<times> state" where
  "AdminLogout_post s =
     (Response (MessageBody ''Logged out successfully'') 200, s\<lparr>session_user_id := None\<rparr>)"

section \<open>Login.post\<close>

definition Login_post :: "env \<Rightarrow> database \<Rightarrow> string option \<Rightarrow> string option \<Rightarrow> outcome" where
  "Login_post e d email password =
     (case (case email of None \<Rightarrow> None | Some em \<Rightarrow> User_filter_by_email_first d em) of
        None \<Rightarrow> Response (ErrorBody ''Invalid credentials'') 401
      | Some u \<Rightarrow>
          (case password of
             None \<Rightarrow> Raised TypeError
           | Some p \<Rightarrow>
               if check_password_hash e (u_password_hash u) p
               then Response (LoginBody (u_id u) u) 200
               else Response (ErrorBody ''Invalid credentials'') 401))"

section \<open>The public operations as a transition system\<close>

text \<open>
  One constructor per route of \<^verbatim>\<open>app.py\<close>. A route under \<^verbatim>\<open>@jwt_required()\<close> carries
  the identity of the presented bearer token, \<^verbatim>\<open>None\<close> when no valid token is
  presented. The four gateway routes (\<^verbatim>\<open>/transact/b2c\<close>, \<^verbatim>\<open>/transact/c2b\<close>,
  \<^verbatim>\<open>/transact/mpesaexpress\<close>, \<^verbatim>\<open>/callback-url\<close>) call the payment gateway and read or
  write neither the database nor the session; what they answer is not modelled.
\<close>

datatype request =
    RegisterPost "string option" "string option" "string option"
  | LoginPost "string option" "string option"
  | CartGet "int option"
  | CartPost "int option" "int option" "int option"
  | MpesaTransactionPost "int option" "real option"
  | UserOrdersGet "int option"
  | UserBorrowingsGet "int option"
  | AdminUsersGet "int option"
  | AdminTransactionsGet "int option"
  | AdminBorrowingsGet "int option"
  | AdminLogoutPost
  | AdminCheckGet "int option"
  | GatewayPost

definition jwt_required ::
  "int option \<Rightarrow> state \<Rightarrow> (int \<Rightarrow> outcome \<times> state) \<Rightarrow> outcome \<times> state"
where
  "jwt_required token s handler =
     (case token of
        None \<Rightarrow> (Response JwtErrorBody 401, s)
      | Some identity \<Rightarrow> handler identity)"

definition with_db :: "state \<Rightarrow> outcome \<times> database \<Rightarrow> outcome \<times> state" where
  "with_db s r = (fst r, s\<lparr>db := snd r\<rparr>)"

fun step :: "env \<Rightarrow> state \<Rightarrow> request \<Rightarrow> outcome \<times> state" where
  "step e s (RegisterPost name email password) =
     with_db s (Register_post e (db s) name email password)"
| "step e s (LoginPost email password) = (Login_post e (db s) email password, s)"
| "step e s (CartGet token) =
     jwt_required token s (\<lambda>uid. (CartResource_get (db s) uid, s))"
| "step e s (CartPost token book_id quantity) =
     jwt_required token s (\<lambda>uid. with_db s (CartResource_post e (db s) uid book_id quantity))"
| "step e s (MpesaTransactionPost token amount) =
     jwt_required token s (\<lambda>uid. with_db s (MpesaTransactionResource_post e (db s) uid amount))"
| "step e s (UserOrdersGet token) =
     jwt_required token s (\<lambda>uid. (UserOrders_get e (db s) uid, s))"
| "step e s (UserBorrowingsGet token) =
     jwt_required token s (\<lambda>uid. (UserBorrowings_get e (db s) uid, s))"
| "step e s (AdminUsersGet token) =
     jwt_required token s (\<lambda>uid. (AdminUserList_get s, s))"
| "step e s (AdminTransactionsGet token) =
     jwt_required token s (\<lambda>uid. (AdminTransactionList_get s, s))"
| "step e s (AdminBorrowingsGet token) =
     jwt_required token s (\<lambda>uid. (AdminBorrowingList_get s, s))"
| "step e s AdminLogoutPost = AdminLogout_post s"
| "step e s (AdminCheckGet token) =
     jwt_required token s (\<lambda>uid. (admin_check (db s) uid, s))"
| "step e s GatewayPost = (Response GatewayBody 200, s)"

text \<open>A sequence of requests, each with the environment it is served in.\<close>

fun run :: "state \<Rightarrow> (env \<times> request) list \<Rightarrow> state" where
  "run s [] = s"
| "run s (x # xs) = run (snd (step (fst x) s (snd x))) xs"

section \<open>The invariants the data model states\<close>

definition quantity_ok :: "order_book \<Rightarrow> bool" where
  "quantity_ok r = (1 \<le> ob_quantity r)"

definition transaction_ok :: "mpesa_transaction \<Rightarrow> bool" where
  "transaction_ok t =
     (0 < t_amount t \<and>
      (t_status t = ''Pending'' \<or> t_status t = ''Completed'' \<or> t_status t = ''Failed''))"

text \<open>The transactions a response carries.\<close>

fun returned_transactions :: "outcome \<Rightarrow> mpesa_transaction list" where
  "returned_transactions (Response (TransactionBody t) st) = [t]"
| "returned_transactions (Response (TransactionList ts) st) = ts"
| "returned_transactions out = []"

section \<open>A small database for concrete runs\<close>

text \<open>Two users, the first an administrator; one book; an order and a borrowing
  for each user; two transactions; no cart and no association row. The hash
  functions stand in for bcrypt.\<close>

definition demo_env :: env where
  "demo_env =
     \<lparr>generate_password_hash = (\<lambda>p. ''$2b$12$'' @ rev p),
      check_password_hash = (\<lambda>h p. h = ''$2b$12$'' @ rev p),
      utcnow = 1000,
      recursion_depth = 100\<rparr>"

definition alice :: user where
  "alice = \<lparr>u_id = 1, u_name = ''Alice'', u_email = ''alice@example.com'',
            u_password_hash = ''$2b$12$drowssap'', u_is_admin = True\<rparr>"

definition bob :: user where
  "bob = \<lparr>u_id = 2, u_name = ''Bob'', u_email = ''bob@example.com'',
          u_password_hash = ''$2b$12$drowssap'', u_is_admin = False\<rparr>"

definition gatsby :: book where
  "gatsby = \<lparr>b_id = 1, b_title = ''The Great Gatsby'', b_author = ''F. Scott Fitzgerald'',
             b_price = 1099 / 100, b_description = None, b_stock = Some 5,
             b_category_id = Some 1, b_is_available_for_borrowing = True\<rparr>"

definition demo_db :: database where
  "demo_db =
     \<lparr>users = [alice, bob],
      categories = [\<lparr>cat_id = 1, cat_name = ''Fiction''\<rparr>],
      books = [gatsby],
      orders = [\<lparr>o_id = 1, o_order_date = 900, o_status = ''Pending'', o_user_id = Some 1\<rparr>,
                \<lparr>o_id = 2, o_order_date = 800, o_status = ''Shipped'', o_user_id = Some 2\<rparr>],
      order_books = [],
      borrowings = [\<lparr>br_id = 1, br_borrow_date = 900, br_due_date = 1600,
                      br_return_date = None, br_user_id = 1, br_book_id = 1\<rparr>,
                    \<lparr>br_id = 2, br_borrow_date = 800, br_due_date = 1600,
                      br_return_date = None, br_user_id = 2, br_book_id = 1\<rparr>],
      carts = [],
      cart_items = [],
      mpesa_transactions =
        [\<lparr>t_id = 1, t_user_id = 1, t_amount = 100, t_transaction_date = 900,
          t_mpesa_receipt = ''123456'', t_status = ''Completed''\<rparr>,
         \<lparr>t_id = 2, t_user_id = 2, t_amount = 200, t_transaction_date = 900,
          t_mpesa_receipt = ''654321'', t_status = ''Pending''\<rparr>]\<rparr>"

definition demo_state :: state where
  "demo_state = \<lparr>db = demo_db, session_user_id = None\<rparr>"

text \<open>
  The database \<^verbatim>\<open>seed.py\<close> creates: five categories, users, books, orders,
  borrowings, carts, cart items and transactions, keyed 1 to 5 in the order of the
  script, and no association row. Time is counted in days here, the script running
  on day 100; the password hashes are those of \<open>demo_env\<close>.
\<close>

definition seed_db :: database where
  "seed_db =
     \<lparr>users =
        [\<lparr>u_id = 1, u_name = ''Alice'', u_email = ''alice@example.com'',
          u_password_hash = ''$2b$12$drowssap'', u_is_admin = False\<rparr>,
         \<lparr>u_id = 2, u_name = ''Bob'', u_email = ''bob@example.com'',
          u_password_hash = ''$2b$12$drowssap'', u_is_admin = False\<rparr>,
         \<lparr>u_id = 3, u_name = ''Charlie'', u_email = ''charlie@example.com'',
          u_password_hash = ''$2b$12$drowssap'', u_is_admin = False\<rparr>,
         \<lparr>u_id = 4, u_name = ''David'', u_email = ''david@example.com'',
          u_password_hash = ''$2b$12$drowssap'', u_is_admin = False\<rparr>,
         \<lparr>u_id = 5, u_name = ''Eve'', u_email = ''eve@example.com'',
          u_password_hash = ''$2b$12$drowssap'', u_is_admin = False\<rparr>],
      categories =
        [\<lparr>cat_id = 1, cat_name = ''Fiction''\<rparr>,
         \<lparr>cat_id = 2, cat_name = ''Non-fiction''\<rparr>,
         \<lparr>cat_id = 3, cat_name = ''Science''\<rparr>,
         \<lparr>cat_id = 4, cat_name = ''Biography''\<rparr>,
         \<lparr>cat_id = 5, cat_name = ''Technology''\<rparr>],
      books =
        [\<lparr>b_id = 1, b_title = ''The Great Gatsby'', b_author = ''F. Scott Fitzgerald'',
          b_price = 1099 / 100, b_description = None, b_stock = Some 5,
          b_category_id = Some 1, b_is_available_for_borrowing = True\<rparr>,
         \<lparr>b_id = 2, b_title = ''1984'', b_author = ''George Orwell'',
          b_price = 899 / 100, b_description = None, b_stock = Some 10,
          b_category_id = Some 1, b_is_available_for_borrowing = True\<rparr>,
         \<lparr>b_id = 3, b_title = ''Sapiens'', b_author = ''Yuval Noah Harari'',
          b_price = 1599 / 100, b_description = None, b_stock = Some 7,
          b_category_id = Some 2, b_is_available_for_borrowing = True\<rparr>,
         \<lparr>b_id = 4, b_title = ''Educated'', b_author = ''Tara Westover'',
          b_price = 1299 / 100, b_description = None, b_stock = Some 3,
          b_category_id = Some 4, b_is_available_for_borrowing = True\<rparr>,
         \<lparr>b_id = 5, b_title = ''Clean Code'', b_author = ''Robert C. Martin'',
          b_price = 2599 / 100, b_description = None, b_stock = Some 8,
          b_category_id = Some 5, b_is_available_for_borrowing = True\<rparr>],
      orders =
        [\<lparr>o_id = 1, o_order_date = 100, o_status = ''Pending'', o_user_id = Some 1\<rparr>,
         \<lparr>o_id = 2, o_order_date = 99, o_status = ''Shipped'', o_user_id = Some 2\<rparr>,
         \<lparr>o_id = 3, o_order_date = 98, o_status = ''Delivered'', o_user_id = Some 3\<rparr>,
         \<lparr>o_id = 4, o_order_date = 97, o_status = ''Cancelled'', o_user_id = Some 4\<rparr>,
         \<lparr>o_id = 5, o_order_date = 96, o_status = ''Pending'', o_user_id = Some 5\<rparr>],
      order_books = [],
      borrowings =
        [\<lparr>br_id = 1, br_borrow_date = 100, br_due_date = 107, br_return_date = None,
          br_user_id = 1, br_book_id = 2\<rparr>,
         \<lparr>br_id = 2, br_borrow_date = 99, br_due_date = 107, br_return_date = None,
          br_user_id = 2, br_book_id = 3\<rparr>,
         \<lparr>br_id = 3, br_borrow_date = 98, br_due_date = 107, br_return_date = None,
          br_user_id = 3, br_book_id = 1\<rparr>,
         \<lparr>br_id = 4, br_borrow_date = 97, br_due_date = 107, br_return_date = None,
          br_user_id = 4, br_book_id = 4\<rparr>,
         \<lparr>br_id = 5, br_borrow_date = 96, br_due_date = 107, br_return_date = None,
          br_user_id = 5, br_book_id = 5\<rparr>],
      carts =
        [\<lparr>c_id = 1, c_user_id = 1\<rparr>, \<lparr>c_id = 2, c_user_id = 2\<rparr>,
         \<lparr>c_id = 3, c_user_id = 3\<rparr>, \<lparr>c_id = 4, c_user_id = 4\<rparr>,
         \<lparr>c_id = 5, c_user_id = 5\<rparr>],
      cart_items =
        [\<lparr>ci_id = 1, ci_cart_id = 1, ci_book_id = 1, ci_quantity = 2\<rparr>,
         \<lparr>ci_id = 2, ci_cart_id = 2, ci_book_id = 3, ci_quantity = 1\<rparr>,
         \<lparr>ci_id = 3, ci_cart_id = 3, ci_book_id = 2, ci_quantity = 4\<rparr>,
         \<lparr>ci_id = 4, ci_cart_id = 4, ci_book_id = 4, ci_quantity = 1\<rparr>,
         \<lparr>ci_id = 5, ci_cart_id = 5, ci_book_id = 5, ci_quantity = 3\<rparr>],
      mpesa_transactions =
        [\<lparr>t_id = 1, t_user_id = 1, t_amount = 100, t_transaction_date = 100,
          t_mpesa_receipt = ''123456'', t_status = ''Completed''\<rparr>,
         \<lparr>t_id = 2, t_user_id = 2, t_amount = 200, t_transaction_date = 100,
          t_mpesa_receipt = ''654321'', t_status = ''Pending''\<rparr>,
         \<lparr>t_id = 3, t_user_id = 3, t_amount = 300, t_transaction_date = 100,
          t_mpesa_receipt = ''789123'', t_status = ''Failed''\<rparr>,
         \<lparr>t_id = 4, t_user_id = 4, t_amount = 150, t_transaction_date = 100,
          t_mpesa_receipt = ''321789'', t_status = ''Completed''\<rparr>,
         \<lparr>t_id = 5, t_user_id = 5, t_amount = 50, t_transaction_date = 100,
          t_mpesa_receipt = ''987654'', t_status = ''Pending''\<rparr>]\<rparr>"

definition seed_state :: state where
  "seed_state = \<lparr>db = seed_db, session_user_id = None\<rparr>"

section \<open>Basic facts about the handlers\<close>

declare Register_post.simps [simp del]
declare MpesaTransactionResource_post.simps [simp del]
declare CartResource_post.simps [simp del]

text \<open>
  \<^verbatim>\<open>CartResource.post\<close> never reaches its commit. The order it builds has not been
  flushed when \<^verbatim>\<open>order.id\<close> is read, so the INSERT into \<^verbatim>\<open>order_books\<close> carries NULL
  in a primary-key column and the database refuses it. Whatever the request, the
  database is left as it was and the answer is never 201.
\<close>

lemma CartResource_post_db: "snd (CartResource_post e d uid b q) = d"
  by (simp add: CartResource_post.simps Order_new_def books_append_def insert_order_books_def
      split: option.splits)

lemma CartResource_post_not_201: "fst (CartResource_post e d uid b q) \<noteq> Response bd 201"
  by (simp add: CartResource_post.simps Order_new_def books_append_def insert_order_books_def
      split: option.splits)

text \<open>
  \<^verbatim>\<open>MpesaTransactionResource.post\<close> builds its row without \<^verbatim>\<open>mpesa_receipt\<close>, a
  column that is \<^verbatim>\<open>nullable=False\<close> and has no default: the commit raises for every
  amount that passes the check.
\<close>

lemma MpesaTransactionResource_post_db: "snd (MpesaTransactionResource_post e d uid a) = d"
  by (simp add: MpesaTransactionResource_post.simps MpesaTransaction_new_def
      insert_mpesa_transaction_def split: option.splits)

lemma MpesaTransactionResource_post_out:
  "fst (MpesaTransactionResource_post e d uid a) =
     (if not_num a then Response (ErrorBody ''Amount is required'') 400
      else Raised IntegrityError)"
  by (simp add: MpesaTransactionResource_post.simps MpesaTransaction_new_def
      insert_mpesa_transaction_def split: option.splits)

text \<open>\<^verbatim>\<open>Register.post\<close> either leaves the database alone or appends one user, who is
  not an administrator.\<close>

lemma Register_post_db:
  "snd (Register_post e d name email password) = d \<or>
   (\<exists>row. snd (Register_post e d name email password) = d\<lparr>users := users d @ [row]\<rparr> \<and>
          \<not> u_is_admin row \<and>
          fst (Register_post e d name email password) = Response (UserBody row) 201)"
  by (auto simp add: Register_post.simps User_new_def validate_email_def set_password_def
      insert_user_def Let_def split: option.splits sum.splits if_splits)

lemma Register_post_201:
  "Register_post e d name email password = (Response (UserBody u) 201, d') \<Longrightarrow>
   \<not> u_is_admin u \<and> d' = d\<lparr>users := users d @ [u]\<rparr>"
  by (auto simp add: Register_post.simps User_new_def validate_email_def set_password_def
      insert_user_def Let_def split: option.splits sum.splits if_splits)

text \<open>Hence a request changes the database at most by appending users that are
  not administrators, and so does a sequence of requests.\<close>

lemma step_tables:
  "\<exists>us. db (snd (step e s r)) = (db s)\<lparr>users := users (db s) @ us\<rparr> \<and>
        list_all (\<lambda>u. \<not> u_is_admin u) us"
proof (cases r)
  case (RegisterPost name email password)
  from Register_post_db [of e "db s" name email password]
  show ?thesis
  proof
    assume "snd (Register_post e (db s) name email password) = db s"
    then have "db (snd (step e s r)) = (db s)\<lparr>users := users (db s) @ []\<rparr>"
      by (simp add: RegisterPost with_db_def)
    then show ?thesis by (intro exI [of _ "[]"]) simp
  next
    assume "\<exists>row. snd (Register_post e (db s) name email password) =
                    (db s)\<lparr>users := users (db s) @ [row]\<rparr> \<and>
                  \<not> u_is_admin row \<and>
                  fst (Register_post e (db s) name email password) = Response (UserBody row) 201"
    then obtain row
      where "snd (Register_post e (db s) name email password) =
               (db s)\<lparr>users := users (db s) @ [row]\<rparr>"
        and "\<not> u_is_admin row"
      by blast
    then show ?thesis by (intro exI [of _ "[row]"]) (simp add: RegisterPost with_db_def)
  qed
next
  case (CartPost token b q)
  then have "db (snd (step e s r)) = (db s)\<lparr>users := users (db s) @ []\<rparr>"
    by (simp add: jwt_required_def with_db_def CartResource_post_db split: option.splits)
  then show ?thesis by (intro exI [of _ "[]"]) simp
next
  case (MpesaTransactionPost token a)
  then have "db (snd (step e s r)) = (db s)\<lparr>users := users (db s) @ []\<rparr>"
    by (simp add: jwt_required_def with_db_def MpesaTransactionResource_post_db
        split: option.splits)
  then show ?thesis by (intro exI [of _ "[]"]) simp
qed (auto simp add: jwt_required_def AdminLogout_post_def intro!: exI [of _ "[]"]
     split: option.splits)

lemma run_tables:
  "\<exists>us. db (run s rs) = (db s)\<lparr>users := users (db s) @ us\<rparr> \<and>
        list_all (\<lambda>u. \<not> u_is_admin u) us"
proof (induction rs arbitrary: s)
  case Nil
  show ?case by (intro exI [of _ "[]"]) simp
next
  case (Cons x xs)
  obtain us1
    where 1: "db (snd (step (fst x) s (snd x))) = (db s)\<lparr>users := users (db s) @ us1\<rparr>"
      and 2: "list_all (\<lambda>u. \<not> u_is_admin u) us1"
    using step_tables by blast
  obtain us2
    where 3: "db (run (snd (step (fst x) s (snd x))) xs) =
                (db (snd (step (fst x) s (snd x))))
                  \<lparr>users := users (db (snd (step (fst x) s (snd x)))) @ us2\<rparr>"
      and 4: "list_all (\<lambda>u. \<not> u_is_admin u) us2"
    using Cons.IH by blast
  show ?case
    by (intro exI [of _ "us1 @ us2"]) (simp add: 1 2 3 4)
qed

lemma filter_admin_none: "list_all (\<lambda>u. \<not> u_is_admin u) us \<Longrightarrow> filter u_is_admin us = []"
  by (induction us) auto

text \<open>No route writes \<^verbatim>\<open>session['user_id']\<close>: \<^verbatim>\<open>Login.post\<close> issues a token and leaves
  the session alone, \<^verbatim>\<open>AdminLogout.post\<close> removes the key. A session without the key
  stays without it, and \<^verbatim>\<open>is_admin()\<close> is false there whoever the caller is.\<close>

lemma step_session:
  "session_user_id s = None \<Longrightarrow> session_user_id (snd (step e s r)) = None"
  by (cases r)
    (simp_all add: jwt_required_def with_db_def AdminLogout_post_def split: option.splits)

lemma run_session: "session_user_id s = None \<Longrightarrow> session_user_id (run s rs) = None"
  by (induction rs arbitrary: s) (simp_all add: step_session)

lemma is_admin_no_session: "session_user_id s = None \<Longrightarrow> is_admin s = False"
  by (simp add: is_admin_def)

lemma is_admin_unknown:
  "User_query_get (db s) uid = None \<Longrightarrow> is_admin (s\<lparr>session_user_id := Some uid\<rparr>) = False"
  by (simp add: is_admin_def)

lemma is_admin_stored_flag:
  "uid \<noteq> 0 \<Longrightarrow> User_query_get (db s) uid = Some u \<Longrightarrow>
   is_admin (s\<lparr>session_user_id := Some uid\<rparr>) = u_is_admin u"
  by (simp add: is_admin_def)

lemma find_email: "(find (\<lambda>u. u_email u = em) us \<noteq> None) = (em \<in> set (map u_email us))"
  by (induction us) auto

lemma email_present:
  "(User_filter_by_email_first d em \<noteq> None) = (em \<in> set (map u_email (users d)))"
  unfolding User_filter_by_email_first_def by (rule find_email)

text \<open>Consequences for the single tables, and the tables a write can reach.\<close>

lemma find_book: "(find (\<lambda>b. b_id b = i) bs = None) = (i \<notin> set (map b_id bs))"
  by (induction bs) auto

lemma book_absent: "(Book_query_get d i = None) = (i \<notin> set (map b_id (books d)))"
  unfolding Book_query_get_def by (rule find_book)

lemma run_order_books: "order_books (db (run s rs)) = order_books (db s)"
proof -
  obtain us where "db (run s rs) = (db s)\<lparr>users := users (db s) @ us\<rparr>"
    using run_tables by blast
  then show ?thesis by simp
qed

lemma run_mpesa_transactions: "mpesa_transactions (db (run s rs)) = mpesa_transactions (db s)"
proof -
  obtain us where "db (run s rs) = (db s)\<lparr>users := users (db s) @ us\<rparr>"
    using run_tables by blast
  then show ?thesis by simp
qed

lemma step_mpesa_transactions:
  "mpesa_transactions (db (snd (step e s r))) = mpesa_transactions (db s)"
proof -
  obtain us where "db (snd (step e s r)) = (db s)\<lparr>users := users (db s) @ us\<rparr>"
    using step_tables by blast
  then show ?thesis by simp
qed

lemma step_admins: "filter u_is_admin (users (db (snd (step e s r)))) = filter u_is_admin (users (db s))"
proof -
  obtain us where "db (snd (step e s r)) = (db s)\<lparr>users := users (db s) @ us\<rparr>"
    and "list_all (\<lambda>u. \<not> u_is_admin u) us"
    using step_tables by blast
  then show ?thesis by (simp add: filter_admin_none)
qed

lemma run_admins: "filter u_is_admin (users (db (run s rs))) = filter u_is_admin (users (db s))"
proof -
  obtain us where "db (run s rs) = (db s)\<lparr>users := users (db s) @ us\<rparr>"
    and "list_all (\<lambda>u. \<not> u_is_admin u) us"
    using run_tables by blast
  then show ?thesis by (simp add: filter_admin_none)
qed

lemma no_admin_filter: "list_all (\<lambda>u. \<not> u_is_admin u) us = (filter u_is_admin us = [])"
  by (induction us) auto

lemma Register_post_returned: "returned_transactions (fst (Register_post e d name email password)) = []"
  by (auto simp add: Register_post.simps User_new_def validate_email_def set_password_def
      insert_user_def Let_def split: option.splits sum.splits if_splits)

lemma CartResource_post_returned: "returned_transactions (fst (CartResource_post e d uid b q)) = []"
  by (simp add: CartResource_post.simps Order_new_def books_append_def insert_order_books_def
      split: option.splits)

lemma step_returned:
  "set (returned_transactions (fst (step e s r))) \<subseteq> set (mpesa_transactions (db s))"
proof (cases r)
  case (RegisterPost name email password)
  then show ?thesis by (simp add: with_db_def Register_post_returned)
next
  case (CartPost token b q)
  then show ?thesis
    by (simp add: jwt_required_def with_db_def CartResource_post_returned split: option.splits)
next
  case (MpesaTransactionPost token a)
  then show ?thesis
    by (simp add: jwt_required_def with_db_def MpesaTransactionResource_post_out
        split: option.splits)
qed (auto simp add: jwt_required_def Login_post_def CartResource_get_def UserOrders_get_def
      UserBorrowings_get_def AdminUserList_get_def AdminTransactionList_get_def
      AdminBorrowingList_get_def AdminLogout_post_def admin_check_def split: option.splits)

lemma insert_order_books_books:
  "insert_order_books d a b c = Inr d' \<Longrightarrow> books d' = books d"
  by (auto simp add: insert_order_books_def split: option.splits if_splits)

lemma insert_links_books: "insert_links d oid bs = Inr d' \<Longrightarrow> books d' = books d"
proof (induction bs arbitrary: d)
  case Nil
  then show ?case by simp
next
  case (Cons b bs)
  then show ?case
    by (auto split: sum.splits dest: insert_order_books_books)
qed

lemma commit_cart_order_books:
  "commit_cart_order e d nc ord = Inr (row, d') \<Longrightarrow> books d' = books d"
  by (auto simp add: commit_cart_order_def insert_cart_def insert_order_def Let_def
      split: option.splits sum.splits prod.splits dest: insert_links_books)

text \<open>
  The outcomes of \<^verbatim>\<open>Register.post\<close>, case by case, with \<^verbatim>\<open>name\<close>, \<^verbatim>\<open>email\<close> and
  \<^verbatim>\<open>password\<close> as \<^verbatim>\<open>data.get\<close> returns them: a missing or empty field is answered 400;
  otherwise the email of a stored user is answered 400, whatever the name and the
  password; otherwise an email that does not match the pattern makes the
  validator's \<^verbatim>\<open>ValueError\<close> leave the handler, which does not catch it; otherwise one
  user is appended, whose credential is the value of \<^verbatim>\<open>generate_password_hash\<close> on the
  password, and returned with 201, and a later registration with that email is
  refused.
\<close>

lemma Register_post_cases:
  "(not_str name \<or> not_str email \<or> not_str password \<longrightarrow>
      Register_post e d name email password =
        (Response (ErrorBody ''Missing required fields'') 400, d)) \<and>
   (n \<noteq> [] \<and> em \<noteq> [] \<and> p \<noteq> [] \<and> em \<in> set (map u_email (users d)) \<longrightarrow>
      Register_post e d (Some n) (Some em) (Some p) =
        (Response (ErrorBody ''Email already exists'') 400, d)) \<and>
   (n \<noteq> [] \<and> em \<noteq> [] \<and> p \<noteq> [] \<and> em \<notin> set (map u_email (users d)) \<and>
    \<not> re_match_valid_email em \<longrightarrow>
      Register_post e d (Some n) (Some em) (Some p) = (Raised (ValueError ''Invalid email''), d)) \<and>
   (n \<noteq> [] \<and> em \<noteq> [] \<and> p \<noteq> [] \<and> em \<notin> set (map u_email (users d)) \<and>
    re_match_valid_email em \<longrightarrow>
      (let row = \<lparr>u_id = next_id (map u_id (users d)), u_name = n, u_email = em,
                  u_password_hash = generate_password_hash e p, u_is_admin = False\<rparr>;
           d' = d\<lparr>users := users d @ [row]\<rparr>
       in Register_post e d (Some n) (Some em) (Some p) = (Response (UserBody row) 201, d') \<and>
          (n' \<noteq> [] \<and> p' \<noteq> [] \<longrightarrow>
             Register_post e' d' (Some n') (Some em) (Some p') =
               (Response (ErrorBody ''Email already exists'') 400, d'))))"
proof -
  have ex: "(User_filter_by_email_first dd em \<noteq> None) = (em \<in> set (map u_email (users dd)))" for dd
    by (rule email_present)
  have 1: "not_str name \<or> not_str email \<or> not_str password \<longrightarrow>
      Register_post e d name email password =
        (Response (ErrorBody ''Missing required fields'') 400, d)"
    by (simp add: Register_post.simps)
  have 2: "n \<noteq> [] \<and> em \<noteq> [] \<and> p \<noteq> [] \<and> em \<in> set (map u_email (users d)) \<longrightarrow>
      Register_post e d (Some n) (Some em) (Some p) =
        (Response (ErrorBody ''Email already exists'') 400, d)"
    using ex [of d] by (simp add: Register_post.simps)
  have 3: "n \<noteq> [] \<and> em \<noteq> [] \<and> p \<noteq> [] \<and> em \<notin> set (map u_email (users d)) \<and>
    \<not> re_match_valid_email em \<longrightarrow>
      Register_post e d (Some n) (Some em) (Some p) = (Raised (ValueError ''Invalid email''), d)"
    using ex [of d] by (simp add: Register_post.simps User_new_def validate_email_def)
  have 4: "n \<noteq> [] \<and> em \<noteq> [] \<and> p \<noteq> [] \<and> em \<notin> set (map u_email (users d)) \<and>
    re_match_valid_email em \<longrightarrow>
      (let row = \<lparr>u_id = next_id (map u_id (users d)), u_name = n, u_email = em,
                  u_password_hash = generate_password_hash e p, u_is_admin = False\<rparr>;
           d' = d\<lparr>users := users d @ [row]\<rparr>
       in Register_post e d (Some n) (Some em) (Some p) = (Response (UserBody row) 201, d') \<and>
          (n' \<noteq> [] \<and> p' \<noteq> [] \<longrightarrow>
             Register_post e' d' (Some n') (Some em) (Some p') =
               (Response (ErrorBody ''Email already exists'') 400, d')))"
  proof (intro impI)
    assume a: "n \<noteq> [] \<and> em \<noteq> [] \<and> p \<noteq> [] \<and> em \<notin> set (map u_email (users d)) \<and>
      re_match_valid_email em"
    define row where "row = \<lparr>u_id = next_id (map u_id (users d)), u_name = n, u_email = em,
                  u_password_hash = generate_password_hash e p, u_is_admin = False\<rparr>"
    define d' where "d' = d\<lparr>users := users d @ [row]\<rparr>"
    have nf: "find (\<lambda>r. u_email r = em) (users d) = None"
      using a ex [of d] by (simp add: User_filter_by_email_first_def)
    have r1: "Register_post e d (Some n) (Some em) (Some p) = (Response (UserBody row) 201, d')"
      using a ex [of d] nf
      by (simp add: Register_post.simps User_new_def validate_email_def set_password_def
          insert_user_def row_def d'_def Let_def)
    have "em \<in> set (map u_email (users d'))"
      by (simp add: d'_def row_def)
    then have r2: "n' \<noteq> [] \<and> p' \<noteq> [] \<longrightarrow>
             Register_post e' d' (Some n') (Some em) (Some p') =
               (Response (ErrorBody ''Email already exists'') 400, d')"
      using a ex [of d'] by (simp add: Register_post.simps)
    show "(let row = \<lparr>u_id = next_id (map u_id (users d)), u_name = n, u_email = em,
                  u_password_hash = generate_password_hash e p, u_is_admin = False\<rparr>;
           d' = d\<lparr>users := users d @ [row]\<rparr>
       in Register_post e d (Some n) (Some em) (Some p) = (Response (UserBody row) 201, d') \<and>
          (n' \<noteq> [] \<and> p' \<noteq> [] \<longrightarrow>
             Register_post e' d' (Some n') (Some em) (Some p') =
               (Response (ErrorBody ''Email already exists'') 400, d')))"
      using r1 r2 by (simp add: Let_def row_def d'_def)
  qed
  from 1 2 3 4 show ?thesis by blast
qed

text \<open>
  Serialisation. A serialisation has no value as soon as one nested serialisation
  has none; the items of a listing that answers 200 are, in order, serialisations
  of exactly the rows the query selects.
\<close>

lemma those_None: "None \<in> set xs \<Longrightarrow> those xs = None"
  by (induction xs) (auto split: option.splits)

lemma to_dict_depth_nested_None:
  assumes "k \<in> set (relationships (fst x))" and "k \<notin> set excl"
    and "y \<in> set (related d (fst x) (snd x) k)"
    and "to_dict_depth n d (excluded_under (fst x) k) y = None"
  shows "to_dict_depth (Suc n) d excl x = None"
proof -
  have "None \<in> set (map (to_dict_depth n d (excluded_under (fst x) k))
                       (related d (fst x) (snd x) k))"
    using assms(3,4) by force
  then have "those (map (to_dict_depth n d (excluded_under (fst x) k))
                       (related d (fst x) (snd x) k)) = None"
    by (rule those_None)
  then have "None \<in> set (map (\<lambda>k. map_option (Pair k)
                          (those (map (to_dict_depth n d (excluded_under (fst x) k))
                                   (related d (fst x) (snd x) k))))
                 (filter (\<lambda>k. k \<notin> set excl) (relationships (fst x))))"
    using assms(1,2) by force
  then show ?thesis
    by (simp add: those_None)
qed

text \<open>
  In the seeded database book 4 is in the cart of user 4, who has also borrowed it.
  From the book the serialiser reaches the cart item, its cart, the cart's user,
  that user's borrowing and the book again, and no rule cuts this path: each of
  the five has no serialisation, at any depth.
\<close>

lemma seed_cycle:
  "to_dict_depth n seed_db [''borrowings''] (Book, 4) = None \<and>
   to_dict_depth n seed_db [''book''] (CartItem, 4) = None \<and>
   to_dict_depth n seed_db [''items''] (Cart, 4) = None \<and>
   to_dict_depth n seed_db [''cart''] (User, 4) = None \<and>
   to_dict_depth n seed_db [''user''] (Borrowing, 4) = None"
proof (induction n)
  case 0
  show ?case by simp
next
  case (Suc n)
  have 1: "to_dict_depth (Suc n) seed_db [''borrowings''] (Book, 4) = None"
    by (rule to_dict_depth_nested_None [where k = "''cart_items''" and y = "(CartItem, 4)"])
      (use Suc in \<open>simp_all add: seed_db_def excluded_under_def\<close>)
  have 2: "to_dict_depth (Suc n) seed_db [''book''] (CartItem, 4) = None"
    by (rule to_dict_depth_nested_None [where k = "''cart''" and y = "(Cart, 4)"])
      (use Suc in \<open>simp_all add: seed_db_def excluded_under_def\<close>)
  have 3: "to_dict_depth (Suc n) seed_db [''items''] (Cart, 4) = None"
    by (rule to_dict_depth_nested_None [where k = "''user''" and y = "(User, 4)"])
      (use Suc in \<open>simp_all add: seed_db_def excluded_under_def\<close>)
  have 4: "to_dict_depth (Suc n) seed_db [''cart''] (User, 4) = None"
    by (rule to_dict_depth_nested_None [where k = "''borrowings''" and y = "(Borrowing, 4)"])
      (use Suc in \<open>simp_all add: seed_db_def excluded_under_def\<close>)
  have 5: "to_dict_depth (Suc n) seed_db [''user''] (Borrowing, 4) = None"
    by (rule to_dict_depth_nested_None [where k = "''book''" and y = "(Book, 4)"])
      (use Suc in \<open>simp_all add: seed_db_def excluded_under_def\<close>)
  from 1 2 3 4 5 show ?case by simp
qed

lemma seed_borrowing_4: "to_dict_depth n seed_db [] (Borrowing, 4) = None"
proof (cases n)
  case 0
  then show ?thesis by simp
next
  case (Suc m)
  show ?thesis
    unfolding Suc
    by (rule to_dict_depth_nested_None [where k = "''book''" and y = "(Book, 4)"])
      (use seed_cycle [of m] in \<open>simp_all add: seed_db_def excluded_under_def\<close>)
qed

lemma seed_order_4: "to_dict_depth n seed_db [] (Order, 4) = None"
proof (cases n)
  case 0
  then show ?thesis by simp
next
  case (Suc m)
  have "to_dict_depth m seed_db [''orders''] (User, 4) = None"
  proof (cases m)
    case 0
    then show ?thesis by simp
  next
    case (Suc l)
    show ?thesis
      unfolding Suc
      by (rule to_dict_depth_nested_None [where k = "''borrowings''" and y = "(Borrowing, 4)"])
        (use seed_cycle [of l] in \<open>simp_all add: seed_db_def excluded_under_def\<close>)
  qed
  then show ?thesis
    unfolding Suc
    by (intro to_dict_depth_nested_None [where k = "''user''" and y = "(User, 4)"])
      (simp_all add: seed_db_def excluded_under_def)
qed

lemma to_dict_depth_model_of: "to_dict_depth n d excl x = Some t \<Longrightarrow> model_of t = x"
  by (cases n) auto

lemma those_map_Some:
  "those (map f xs) = Some ys \<Longrightarrow> (\<And>x y. f x = Some y \<Longrightarrow> g y = h x) \<Longrightarrow> map g ys = map h xs"
proof (induction xs arbitrary: ys)
  case Nil
  then show ?case by simp
next
  case (Cons x xs)
  then show ?case by (auto split: option.splits)
qed

lemma UserOrders_get_items:
  "UserOrders_get e d uid = Response (ModelList items) 200 \<Longrightarrow>
   map model_of items =
     map (\<lambda>ord. (Order, o_id ord)) (filter (\<lambda>ord. o_user_id ord = Some uid) (orders d))"
  by (auto simp add: UserOrders_get_def to_dict_def split: option.splits
      elim!: those_map_Some dest: to_dict_depth_model_of)

lemma UserBorrowings_get_items:
  "UserBorrowings_get e d uid = Response (ModelList items) 200 \<Longrightarrow>
   map model_of items =
     map (\<lambda>b. (Borrowing, br_id b)) (filter (\<lambda>b. br_user_id b = uid) (borrowings d))"
  by (auto simp add: UserBorrowings_get_def to_dict_def split: option.splits
      elim!: those_map_Some dest: to_dict_depth_model_of)

text \<open>On the demo database, which has no such cycle, the orders of user 2 are
  serialised and returned.\<close>

lemma UserOrders_get_demo:
  "UserOrders_get demo_env demo_db 2 =
     Response (ModelList
       [Model Order 2
          [(''user'',
            [Model User 2
               [(''borrowings'',
                 [Model Borrowing 2
                    [(''book'',
                      [Model Book 1
                         [(''category'', [Model Category 1 []]), (''orders'', []),
                          (''cart_items'', [])]])]]),
                (''cart'', []),
                (''transactions'', [Model MpesaTransaction 2 []])]]),
           (''books'', [])]]) 200"
  by code_simp

section \<open>The claims\<close>

text \<open>
  Claim C1 (admin-only listings follow the caller's stored flag). The three admin
  listings decide by \<^verbatim>\<open>is_admin()\<close>, which looks up \<^verbatim>\<open>session['user_id']\<close> and not
  the identity of the bearer token that \<^verbatim>\<open>@jwt_required()\<close> has just accepted;
  \<^verbatim>\<open>admin_check\<close>, next to it, uses the token. In \<open>demo_state\<close> user 1 is stored as
  an administrator and presents a valid token with an empty session, as every
  session is after \<^verbatim>\<open>Login.post\<close>: \<^verbatim>\<open>/admin_check\<close> answers 200, and each of the three
  listings answers 403.
\<close>

theorem admin_listing_refuses_admin:
  "map_option u_is_admin (User_query_get (db demo_state) 1) = Some True \<and>
   step demo_env demo_state (AdminCheckGet (Some 1)) =
     (Response (MessageBody ''User is an admin'') 200, demo_state) \<and>
   step demo_env demo_state (AdminUsersGet (Some 1)) =
     (Response (ErrorBody ''Admin privileges required'') 403, demo_state) \<and>
   step demo_env demo_state (AdminTransactionsGet (Some 1)) =
     (Response (ErrorBody ''Admin privileges required'') 403, demo_state) \<and>
   step demo_env demo_state (AdminBorrowingsGet (Some 1)) =
     (Response (ErrorBody ''Admin privileges required'') 403, demo_state)"
  by (simp add: demo_state_def demo_db_def alice_def bob_def User_query_get_def jwt_required_def
      admin_check_def AdminUserList_get_def AdminTransactionList_get_def
      AdminBorrowingList_get_def is_admin_def)

text \<open>
  Claim C2 (add to cart creates the cart, an order and one association row, and
  answers 201). The scenario of the specification: user 2 has no cart, book 1
  exists, the quantity is 2. The handler raises \<open>IntegrityError\<close> at the INSERT
  into \<^verbatim>\<open>order_books\<close>, before the commit: no cart, order or row is stored.
\<close>

theorem add_to_cart_raises:
  "Book_query_get demo_db 1 = Some gatsby \<and>
   Cart_filter_by_user_first demo_db 2 = None \<and>
   CartResource_post demo_env demo_db 2 (Some 1) (Some 2) = (Raised IntegrityError, demo_db)"
  by (simp add: CartResource_post.simps demo_db_def gatsby_def Book_query_get_def
      Cart_filter_by_user_first_def Order_new_def books_append_def insert_order_books_def)

text \<open>
  Claim C3 (a transaction with an amount is stored as Pending and returned with
  201). With amount 100 for user 1 the commit raises \<open>IntegrityError\<close>, since the
  row has no \<^verbatim>\<open>mpesa_receipt\<close>; nothing is stored.
\<close>

theorem record_transaction_raises:
  "MpesaTransactionResource_post demo_env demo_db 1 (Some 100) =
     (Raised IntegrityError, demo_db)"
  by (simp add: MpesaTransactionResource_post.simps MpesaTransaction_new_def
      insert_mpesa_transaction_def)

text \<open>
  Claim C4 (registration fails with a validation error on a malformed email). The
  address \<^verbatim>\<open>carol@example\<close> has no dot after the \<^verbatim>\<open>@\<close> and does not match the pattern.
  Registering it makes \<^verbatim>\<open>validate_email\<close> raise \<^verbatim>\<open>ValueError("Invalid email")\<close> inside
  the constructor; \<^verbatim>\<open>Register.post\<close> has no handler for it, so the exception leaves
  the route and the answer is 500, with nothing stored. The two checks before it in
  the same handler answer with a 400 body: a missing name, and the email of a
  stored user.
\<close>

theorem register_invalid_email_raises:
"\<not> re_match_valid_email ''carol@example'' \<and>
   Register_post demo_env demo_db (Some ''Carol'') (Some ''carol@example'') (Some ''password'') =
     (Raised (ValueError ''Invalid email''), demo_db) \<and>
   Register_post demo_env demo_db None (Some ''carol@example'') (Some ''password'') =
     (Response (ErrorBody ''Missing required fields'') 400, demo_db) \<and>
   Register_post demo_env demo_db (Some ''Mallory'') (Some ''alice@example.com'') (Some ''other'') =
     (Response (ErrorBody ''Email already exists'') 400, demo_db)"
  by (simp add: Register_post.simps User_filter_by_email_first_def User_new_def
      validate_email_def demo_db_def alice_def bob_def re_match_valid_email_def local_char_def
      domain_char_def suffix_char_def is_alnum_def)

text \<open>
  Claim C5 (every association row has quantity at least 1; a row written without
  a quantity gets 1). No sequence of requests changes \<^verbatim>\<open>order_books\<close>: the only
  handler that writes to it, \<^verbatim>\<open>CartResource.post\<close>, is stopped by the database at
  its INSERT. So rows that satisfy the bound before a run satisfy it after. An
  INSERT that leaves the quantity out, as the flush of the \<^verbatim>\<open>books\<close> relationship
  does, stores the column default 1.
\<close>
theorem association_quantity_invariant:
  "(list_all quantity_ok (order_books (db s)) \<longrightarrow>
      list_all quantity_ok (order_books (db (run s rs)))) \<and>
   (insert_order_books d (Some oid) (Some bid) None = Inr d' \<longrightarrow>
      order_books d' =
        order_books d @ [\<lparr>ob_order_id = oid, ob_book_id = bid, ob_quantity = 1\<rparr>])"
  by (auto simp add: run_order_books insert_order_books_def split: if_splits)

text \<open>A run on a table holding one row of quantity 3, with a request of quantity
  \<open>-3\<close>, and an INSERT without a quantity into the empty table.\<close>

theorem association_quantity_invariant_witness:
  "list_all quantity_ok
     (order_books (db (demo_state\<lparr>db := demo_db\<lparr>order_books :=
         [\<lparr>ob_order_id = 1, ob_book_id = 1, ob_quantity = 3\<rparr>]\<rparr>\<rparr>))) \<and>
   list_all quantity_ok
     (order_books (db (run (demo_state\<lparr>db := demo_db\<lparr>order_books :=
         [\<lparr>ob_order_id = 1, ob_book_id = 1, ob_quantity = 3\<rparr>]\<rparr>\<rparr>)
       [(demo_env, CartPost (Some 2) (Some 1) (Some (- 3)))]))) \<and>
   insert_order_books demo_db (Some 2) (Some 1) None =
     Inr (demo_db\<lparr>order_books :=
       [\<lparr>ob_order_id = 2, ob_book_id = 1, ob_quantity = 1\<rparr>]\<rparr>) \<and>
   order_books (demo_db\<lparr>order_books :=
       [\<lparr>ob_order_id = 2, ob_book_id = 1, ob_quantity = 1\<rparr>]\<rparr>) =
     order_books demo_db @ [\<lparr>ob_order_id = 2, ob_book_id = 1, ob_quantity = 1\<rparr>]"
  using
    association_quantity_invariant [where
      s = "demo_state\<lparr>db := demo_db\<lparr>order_books :=
             [\<lparr>ob_order_id = 1, ob_book_id = 1, ob_quantity = 3\<rparr>]\<rparr>\<rparr>"
      and rs = "[(demo_env, CartPost (Some 2) (Some 1) (Some (- 3)))]"
      and d = demo_db and oid = 2 and bid = 1
      and d' = "demo_db\<lparr>order_books :=
                 [\<lparr>ob_order_id = 2, ob_book_id = 1, ob_quantity = 1\<rparr>]\<rparr>"]
  by (simp add: demo_state_def demo_db_def quantity_ok_def insert_order_books_def)

text \<open>
  Claim C6 (every transaction has a positive amount and a status among Pending,
  Completed, Failed). If the stored transactions satisfy this, then so do the
  stored transactions after any request and after any sequence of requests, and so
  does every transaction a response carries. No request adds a transaction:
  \<^verbatim>\<open>MpesaTransactionResource.post\<close> is stopped at its commit.
\<close>
theorem transaction_invariant:
  "list_all transaction_ok (mpesa_transactions (db s)) \<longrightarrow>
     list_all transaction_ok (mpesa_transactions (db (run s rs))) \<and>
     list_all transaction_ok (mpesa_transactions (db (snd (step e s r)))) \<and>
     list_all transaction_ok (returned_transactions (fst (step e s r)))"
proof
  assume a: "list_all transaction_ok (mpesa_transactions (db s))"
  have "list_all transaction_ok (returned_transactions (fst (step e s r)))"
    using a step_returned [of e s r] by (auto simp add: list_all_iff)
  with a show "list_all transaction_ok (mpesa_transactions (db (run s rs))) \<and>
     list_all transaction_ok (mpesa_transactions (db (snd (step e s r)))) \<and>
     list_all transaction_ok (returned_transactions (fst (step e s r)))"
    by (simp add: run_mpesa_transactions step_mpesa_transactions)
qed

text \<open>The demo database after a request with amount \<open>-5\<close> and an admin
  listing.\<close>

theorem transaction_invariant_witness:
  "list_all transaction_ok (mpesa_transactions (db demo_state)) \<and>
   list_all transaction_ok (mpesa_transactions (db (run demo_state
      [(demo_env, MpesaTransactionPost (Some 2) (Some (- 5))),
       (demo_env, AdminTransactionsGet (Some 1))]))) \<and>
   list_all transaction_ok (mpesa_transactions (db (snd
      (step demo_env demo_state (MpesaTransactionPost (Some 2) (Some (- 5))))))) \<and>
   list_all transaction_ok (returned_transactions (fst
      (step demo_env demo_state (MpesaTransactionPost (Some 2) (Some (- 5))))))"
  using
    transaction_invariant [where s = demo_state and e = demo_env
      and r = "MpesaTransactionPost (Some 2) (Some (- 5))"
      and rs = "[(demo_env, MpesaTransactionPost (Some 2) (Some (- 5))),
                 (demo_env, AdminTransactionsGet (Some 1))]"]
  by (simp add: demo_state_def demo_db_def transaction_ok_def)

text \<open>
  Claim C7 as stated fails for \<^verbatim>\<open>book_id = 0\<close>: the key is given, the quantity is 1,
  no book has key 0, and the answer is 400 \<^verbatim>\<open>Missing required fields\<close>, not 404,
  since \<^verbatim>\<open>not book_id\<close> holds of 0.
\<close>
theorem add_to_cart_book_id_zero:
  "0 \<notin> set (map b_id (books demo_db)) \<and>
   CartResource_post demo_env demo_db 2 (Some 0) (Some 1) =
     (Response (ErrorBody ''Missing required fields'') 400, demo_db) \<and>
   fst (CartResource_post demo_env demo_db 2 (Some 0) (Some 1)) \<noteq>
     Response (ErrorBody ''Book not found'') 404"
  by (simp add: CartResource_post.simps demo_db_def gatsby_def)

text \<open>
  Claim C7, amended (rejections of add to cart). If \<^verbatim>\<open>book_id\<close> is missing or 0, or
  \<^verbatim>\<open>quantity\<close> is missing or 0, the answer is 400 \<^verbatim>\<open>Missing required fields\<close>;
  otherwise, if no book has the given key, the answer is 404 \<^verbatim>\<open>Book not found\<close>. In
  both cases the database is returned unchanged.
\<close>

theorem add_to_cart_rejections:
  "(not_int book_id \<or> not_int quantity \<longrightarrow>
      CartResource_post e d uid book_id quantity =
        (Response (ErrorBody ''Missing required fields'') 400, d)) \<and>
   (bid \<noteq> 0 \<and> q \<noteq> 0 \<and> bid \<notin> set (map b_id (books d)) \<longrightarrow>
      CartResource_post e d uid (Some bid) (Some q) =
        (Response (ErrorBody ''Book not found'') 404, d))"
proof -
  have "bid \<notin> set (map b_id (books d)) \<longrightarrow> Book_query_get d bid = None"
    using book_absent [of d bid] by simp
  then show ?thesis
    by (auto simp add: CartResource_post.simps)
qed

text \<open>The four ways to fail the first check and a key no book has, on the demo
  database.\<close>

theorem add_to_cart_rejections_witness:
  "CartResource_post demo_env demo_db 2 None (Some 2) =
     (Response (ErrorBody ''Missing required fields'') 400, demo_db) \<and>
   CartResource_post demo_env demo_db 2 (Some 0) (Some 2) =
     (Response (ErrorBody ''Missing required fields'') 400, demo_db) \<and>
   CartResource_post demo_env demo_db 2 (Some 1) None =
     (Response (ErrorBody ''Missing required fields'') 400, demo_db) \<and>
   CartResource_post demo_env demo_db 2 (Some 1) (Some 0) =
     (Response (ErrorBody ''Missing required fields'') 400, demo_db) \<and>
   CartResource_post demo_env demo_db 2 (Some 7) (Some 2) =
     (Response (ErrorBody ''Book not found'') 404, demo_db)"
  using
    add_to_cart_rejections [where book_id = None and quantity = "Some 2" and e = demo_env
      and d = demo_db and uid = 2 and bid = 7 and q = 2]
    add_to_cart_rejections [where book_id = "Some 0" and quantity = "Some 2" and e = demo_env
      and d = demo_db and uid = 2 and bid = 7 and q = 2]
    add_to_cart_rejections [where book_id = "Some 1" and quantity = None and e = demo_env
      and d = demo_db and uid = 2 and bid = 7 and q = 2]
    add_to_cart_rejections [where book_id = "Some 1" and quantity = "Some 0" and e = demo_env
      and d = demo_db and uid = 2 and bid = 7 and q = 2]
  by (simp add: demo_db_def gatsby_def)

text \<open>
  Claim C8 (add to cart leaves the book alone). Whatever the request and its
  outcome, the \<^verbatim>\<open>books\<close> table after \<^verbatim>\<open>CartResource.post\<close> is the table before it, and
  a lookup of any key finds the same row; the same holds through the route. The
  two writing statements of the handler do not touch the table either: neither an
  INSERT into \<^verbatim>\<open>order_books\<close> nor the commit of the cart and the order changes
  \<^verbatim>\<open>books\<close>, whether they succeed or raise.
\<close>
theorem add_to_cart_keeps_books:
  "books (snd (CartResource_post e d uid book_id quantity)) = books d \<and>
   Book_query_get (snd (CartResource_post e d uid book_id quantity)) bid = Book_query_get d bid \<and>
   books (db (snd (step e s (CartPost token book_id quantity)))) = books (db s) \<and>
   books (case insert_order_books d oid bk qty of Inl x \<Rightarrow> d | Inr d1 \<Rightarrow> d1) = books d \<and>
   books (case commit_cart_order e d nc ord of Inl x \<Rightarrow> d | Inr r \<Rightarrow> snd r) = books d"
proof -
  have 1: "books (case insert_order_books d oid bk qty of Inl x \<Rightarrow> d | Inr d1 \<Rightarrow> d1) = books d"
    by (auto split: sum.splits dest: insert_order_books_books)
  have 2: "books (case commit_cart_order e d nc ord of Inl x \<Rightarrow> d | Inr r \<Rightarrow> snd r) = books d"
    by (auto split: sum.splits dest: commit_cart_order_books)
  have 3: "books (db (snd (step e s (CartPost token book_id quantity)))) = books (db s)"
    by (simp add: jwt_required_def with_db_def CartResource_post_db split: option.splits)
  show ?thesis
    using 1 2 3 by (simp add: CartResource_post_db)
qed

text \<open>The scenario of C2 on the demo database: the one book is as before.\<close>

theorem add_to_cart_keeps_books_witness:
  "books (snd (CartResource_post demo_env demo_db 2 (Some 1) (Some 2))) = [gatsby] \<and>
   Book_query_get (snd (CartResource_post demo_env demo_db 2 (Some 1) (Some 2))) 1 = Some gatsby \<and>
   books (db (snd (step demo_env demo_state (CartPost (Some 2) (Some 1) (Some 2))))) = [gatsby]"
  using
    add_to_cart_keeps_books [where e = demo_env and d = demo_db and uid = 2
      and book_id = "Some 1" and quantity = "Some 2" and bid = 1 and s = demo_state
      and token = "Some 2"]
  by (simp add: demo_state_def demo_db_def Book_query_get_def gatsby_def)

text \<open>
  Claim C9 (no request makes an administrator). The user that \<^verbatim>\<open>Register.post\<close>
  returns with 201 is the one row it appended and has \<^verbatim>\<open>is_admin = False\<close>; the
  administrators among the stored users are the same rows, in the same order,
  after any request and after any sequence of requests; in particular a database
  without administrators stays without them.
\<close>
theorem no_admin_created:
  "(Register_post e d name email password = (Response (UserBody u) 201, d') \<longrightarrow>
      \<not> u_is_admin u \<and> users d' = users d @ [u]) \<and>
   filter u_is_admin (users (db (snd (step e s r)))) = filter u_is_admin (users (db s)) \<and>
   filter u_is_admin (users (db (run s rs))) = filter u_is_admin (users (db s)) \<and>
   (list_all (\<lambda>u. \<not> u_is_admin u) (users (db s)) \<longrightarrow>
      list_all (\<lambda>u. \<not> u_is_admin u) (users (db (run s rs))))"
proof -
  have 1: "Register_post e d name email password = (Response (UserBody u) 201, d') \<longrightarrow>
      \<not> u_is_admin u \<and> users d' = users d @ [u]"
    using Register_post_201 [of e d name email password u d'] by auto
  have 4: "list_all (\<lambda>u. \<not> u_is_admin u) (users (db s)) \<longrightarrow>
      list_all (\<lambda>u. \<not> u_is_admin u) (users (db (run s rs)))"
    by (simp add: no_admin_filter run_admins)
  from 1 4 show ?thesis
    by (simp add: step_admins run_admins)
qed

text \<open>A database whose only user is not an administrator, after a registration, a
  login, an admin check and a logout.\<close>

theorem no_admin_created_witness:
  "Register_post demo_env demo_db
       (Some ''Carol'') (Some ''carol@example.com'') (Some ''password'') =
     (Response (UserBody \<lparr>u_id = 3, u_name = ''Carol'', u_email = ''carol@example.com'',
                          u_password_hash = ''$2b$12$drowssap'', u_is_admin = False\<rparr>) 201,
      demo_db\<lparr>users := [alice, bob,
                 \<lparr>u_id = 3, u_name = ''Carol'', u_email = ''carol@example.com'',
                  u_password_hash = ''$2b$12$drowssap'', u_is_admin = False\<rparr>]\<rparr>) \<and>
   list_all (\<lambda>u. \<not> u_is_admin u) (users (db (demo_state\<lparr>db := demo_db\<lparr>users := [bob]\<rparr>\<rparr>))) \<and>
   \<not> u_is_admin \<lparr>u_id = 3, u_name = ''Carol'', u_email = ''carol@example.com'',
                 u_password_hash = ''$2b$12$drowssap'', u_is_admin = False\<rparr> \<and>
   list_all (\<lambda>u. \<not> u_is_admin u)
     (users (db (run (demo_state\<lparr>db := demo_db\<lparr>users := [bob]\<rparr>\<rparr>)
       [(demo_env, RegisterPost (Some ''Carol'') (Some ''carol@example.com'') (Some ''password'')),
        (demo_env, LoginPost (Some ''carol@example.com'') (Some ''password'')),
        (demo_env, AdminCheckGet (Some 3)),
        (demo_env, AdminLogoutPost)])))"
  using
    no_admin_created [where e = demo_env and d = demo_db and name = "Some ''Carol''"
      and email = "Some ''carol@example.com''" and password = "Some ''password''"
      and u = "\<lparr>u_id = 3, u_name = ''Carol'', u_email = ''carol@example.com'',
                 u_password_hash = ''$2b$12$drowssap'', u_is_admin = False\<rparr>"
      and d' = "demo_db\<lparr>users := [alice, bob,
                 \<lparr>u_id = 3, u_name = ''Carol'', u_email = ''carol@example.com'',
                  u_password_hash = ''$2b$12$drowssap'', u_is_admin = False\<rparr>]\<rparr>"
      and s = "demo_state\<lparr>db := demo_db\<lparr>users := [bob]\<rparr>\<rparr>"
      and rs = "[(demo_env, RegisterPost (Some ''Carol'') (Some ''carol@example.com'') (Some ''password'')),
        (demo_env, LoginPost (Some ''carol@example.com'') (Some ''password'')),
        (demo_env, AdminCheckGet (Some 3)),
        (demo_env, AdminLogoutPost)]"]
  by (simp add: demo_state_def demo_db_def demo_env_def alice_def bob_def next_id_def Let_def
      Register_post.simps User_filter_by_email_first_def User_new_def validate_email_def
      set_password_def insert_user_def re_match_valid_email_def local_char_def
      domain_char_def suffix_char_def is_alnum_def)

text \<open>
  Claim C10 (the user-scoped listings return the caller's rows). On the seeded
  database, with a token for user 4, both listings select that user's one row and
  then fail to serialise it: \<^verbatim>\<open>to_dict()\<close> runs round the cycle of \<open>seed_cycle\<close> until
  Python raises \<^verbatim>\<open>RecursionError\<close>, whatever the recursion limit is. The answer is
  500 and no row is returned.
\<close>

theorem user_listing_recursion_error:
  "UserOrders_get e seed_db 4 = Raised RecursionError \<and>
   UserBorrowings_get e seed_db 4 = Raised RecursionError \<and>
   step e seed_state (UserOrdersGet (Some 4)) = (Raised RecursionError, seed_state) \<and>
   step e seed_state (UserBorrowingsGet (Some 4)) = (Raised RecursionError, seed_state)"
proof -
  have o: "filter (\<lambda>ord. o_user_id ord = Some 4) (orders seed_db) =
             [\<lparr>o_id = 4, o_order_date = 97, o_status = ''Cancelled'', o_user_id = Some 4\<rparr>]"
    by (simp add: seed_db_def)
  have b: "filter (\<lambda>b. br_user_id b = 4) (borrowings seed_db) =
             [\<lparr>br_id = 4, br_borrow_date = 97, br_due_date = 107, br_return_date = None,
               br_user_id = 4, br_book_id = 4\<rparr>]"
    by (simp add: seed_db_def)
  have 1: "UserOrders_get e seed_db 4 = Raised RecursionError"
    by (simp add: UserOrders_get_def to_dict_def o seed_order_4)
  have 2: "UserBorrowings_get e seed_db 4 = Raised RecursionError"
    by (simp add: UserBorrowings_get_def to_dict_def b seed_borrowing_4)
  show ?thesis
    by (simp add: 1 2 jwt_required_def seed_state_def)
qed

end
